theory Spec2Isabelle
  imports Main
begin

section \<open>Python values, errors and string primitives\<close>

text \<open>
  The importer is Python: a row's data is a dictionary whose values are untyped, and every
  method may raise. Values are modelled by \<open>pyval\<close>, raised exceptions by the left
  summand of \<open>error + 'a\<close>. Strings are modelled as lists of \<open>char\<close>, that is texts whose
  code points are below 256; on those, Python's Unicode case folding of the letters used
  by the importer and its notion of a decimal digit coincide with the ASCII ones.
\<close>

datatype pyval = PyNone | PyBool bool | PyInt int | PyStr string | PyList "pyval list"

datatype error =
    TypeError | ValueError | IndexError | AttributeError | EOFError
  | YouTrackException
  | YoutrackIssueNotFoundException

type_synonym 'a res = "error + 'a"

fun ebind :: "'a res \<Rightarrow> ('a \<Rightarrow> 'b res) \<Rightarrow> 'b res" where
  "ebind (Inl e) f = Inl e"
| "ebind (Inr x) f = f x"

text \<open>Python truthiness, as used by \<open>if x:\<close> and \<open>not x\<close>.\<close>

fun truthy :: "pyval \<Rightarrow> bool" where
  "truthy PyNone = False"
| "truthy (PyBool b) = b"
| "truthy (PyInt i) = (i \<noteq> 0)"
| "truthy (PyStr s) = (s \<noteq> [])"
| "truthy (PyList xs) = (xs \<noteq> [])"

definition is_digit :: "char \<Rightarrow> bool" where
  "is_digit c = (48 \<le> (of_char c :: nat) \<and> (of_char c :: nat) \<le> 57)"

definition is_upper :: "char \<Rightarrow> bool" where
  "is_upper c = (65 \<le> (of_char c :: nat) \<and> (of_char c :: nat) \<le> 90)"

definition is_lower :: "char \<Rightarrow> bool" where
  "is_lower c = (97 \<le> (of_char c :: nat) \<and> (of_char c :: nat) \<le> 122)"

definition is_alnum :: "char \<Rightarrow> bool" where
  "is_alnum c = (is_digit c \<or> is_upper c \<or> is_lower c)"

text \<open>The characters \<open>str.strip()\<close> and \<open>int()\<close> treat as white space, below code point 256.\<close>

definition is_space :: "char \<Rightarrow> bool" where
  "is_space c = (let k = (of_char c :: nat) in
     (9 \<le> k \<and> k \<le> 13) \<or> (28 \<le> k \<and> k \<le> 32) \<or> k = 133 \<or> k = 160)"

definition to_lower :: "char \<Rightarrow> char" where
  "to_lower c = (if is_upper c then char_of ((of_char c :: nat) + 32) else c)"

definition digit_val :: "char \<Rightarrow> nat" where
  "digit_val c = (of_char c :: nat) - 48"

definition digit_char :: "nat \<Rightarrow> char" where
  "digit_char d = char_of (48 + d)"

text \<open>\<open>s.split(c)\<close> for a one-character separator: every occurrence splits, and the result
  always has at least one component.\<close>

fun split_on :: "char \<Rightarrow> string \<Rightarrow> string list" where
  "split_on c [] = [[]]"
| "split_on c (x # xs) =
     (if x = c then [] # split_on c xs
      else (case split_on c xs of [] \<Rightarrow> [[x]] | w # ws \<Rightarrow> (x # w) # ws))"

text \<open>\<open>xs[i]\<close> for a non-negative index: IndexError out of range.\<close>

definition py_index :: "'a list \<Rightarrow> nat \<Rightarrow> 'a res" where
  "py_index xs i = (if i < length xs then Inr (xs ! i) else Inl IndexError)"

definition strip :: "string \<Rightarrow> string" where
  "strip s = rev (dropWhile is_space (rev (dropWhile is_space s)))"

text \<open>The body of an integer literal accepted by \<open>int(s)\<close> after the sign: decimal digits,
  single underscores allowed between digits only.\<close>

fun no_double_underscore :: "string \<Rightarrow> bool" where
  "no_double_underscore (a # b # r) =
     (\<not> (a = CHR ''_'' \<and> b = CHR ''_'') \<and> no_double_underscore (b # r))"
| "no_double_underscore r = True"

definition literal_ok :: "string \<Rightarrow> bool" where
  "literal_ok r = (r \<noteq> [] \<and> is_digit (hd r) \<and> is_digit (last r)
     \<and> list_all (\<lambda>c. is_digit c \<or> c = CHR ''_'') r \<and> no_double_underscore r)"

definition digits_value :: "string \<Rightarrow> nat" where
  "digits_value r = foldl (\<lambda>a c. 10 * a + digit_val c) 0 (filter (\<lambda>c. c \<noteq> CHR ''_'') r)"

definition literal_value :: "string \<Rightarrow> int res" where
  "literal_value r = (if literal_ok r then Inr (int (digits_value r)) else Inl ValueError)"

definition py_int :: "string \<Rightarrow> int res" where
  "py_int s = (case strip s of
       [] \<Rightarrow> Inl ValueError
     | c # r \<Rightarrow>
         if c = CHR ''-'' then ebind (literal_value r) (\<lambda>v. Inr (- v))
         else if c = CHR ''+'' then literal_value r
         else literal_value (c # r))"

text \<open>\<open>str(n)\<close> for an integer.\<close>

fun str_nat :: "nat \<Rightarrow> string" where
  "str_nat n = (if n < 10 then [digit_char n] else str_nat (n div 10) @ [digit_char (n mod 10)])"

declare str_nat.simps [simp del]

definition str_int :: "int \<Rightarrow> string" where
  "str_int i = (if i < 0 then CHR ''-'' # str_nat (nat (- i)) else str_nat (nat i))"

section \<open>Rows of the CSV importer\<close>

text \<open>
  The class \<open>Row\<close> of the package's main module and its two subclasses differ only in the
  fields they read and in the date format. A row holds the record read from the CSV file
  and two cached lookups.
\<close>

datatype variant = BaseRow | ManicTimeRow | TogglRow

type_synonym rowdata = "string \<Rightarrow> pyval option"

definition get_field :: "rowdata \<Rightarrow> string \<Rightarrow> pyval" where
  "get_field d k = (case d k of Some v \<Rightarrow> v | None \<Rightarrow> PyNone)"

text \<open>\<open>a + " " + b\<close> on two fields: defined on strings only.\<close>

definition concat_space :: "pyval \<Rightarrow> pyval \<Rightarrow> pyval res" where
  "concat_space a b = (case (a, b) of
       (PyStr x, PyStr y) \<Rightarrow> Inr (PyStr (x @ '' '' @ y))
     | _ \<Rightarrow> Inl TypeError)"

fun get_tags :: "variant \<Rightarrow> rowdata \<Rightarrow> pyval" where
  "get_tags TogglRow d = get_field d ''Tags''"
| "get_tags v d = get_field d ''Name''"

fun get_description :: "variant \<Rightarrow> rowdata \<Rightarrow> pyval" where
  "get_description TogglRow d = get_field d ''Description''"
| "get_description v d = get_field d ''Notes''"

definition get_duration :: "variant \<Rightarrow> rowdata \<Rightarrow> pyval" where
  "get_duration v d = get_field d ''Duration''"

fun get_start :: "variant \<Rightarrow> rowdata \<Rightarrow> pyval res" where
  "get_start TogglRow d = concat_space (get_field d ''Start date'') (get_field d ''Start time'')"
| "get_start v d = Inr (get_field d ''Start'')"

fun get_issue_string :: "variant \<Rightarrow> rowdata \<Rightarrow> pyval res" where
  "get_issue_string TogglRow d = concat_space (get_description TogglRow d) (get_tags TogglRow d)"
| "get_issue_string v d = Inr (get_tags v d)"

subsection \<open>Durations\<close>

definition get_duration_split :: "variant \<Rightarrow> rowdata \<Rightarrow> string list option res" where
  "get_duration_split v d = (let duration = get_duration v d in
     if truthy duration then
       (case duration of PyStr s \<Rightarrow> Inr (Some (split_on CHR '':'' s)) | _ \<Rightarrow> Inl AttributeError)
     else Inr None)"

text \<open>Item access followed by \<open>int(...)\<close>.\<close>

definition int_at :: "string list \<Rightarrow> nat \<Rightarrow> int res" where
  "int_at xs i = ebind (py_index xs i) py_int"

definition get_duration_as_minutes :: "variant \<Rightarrow> rowdata \<Rightarrow> int option res" where
  "get_duration_as_minutes v d =
     ebind (get_duration_split v d) (\<lambda>duration.
       case duration of
         None \<Rightarrow> Inr None
       | Some xs \<Rightarrow>
           ebind (int_at xs 0) (\<lambda>h.
           ebind (int_at xs 1) (\<lambda>m.
           ebind (int_at xs 2) (\<lambda>s.
             Inr (Some (0 + h * 60 + m + (if s \<ge> 30 then 1 else 0)))))))"

definition get_duration_as_string :: "variant \<Rightarrow> rowdata \<Rightarrow> string option res" where
  "get_duration_as_string v d =
     ebind (get_duration_split v d) (\<lambda>duration.
       case duration of
         None \<Rightarrow> Inr None
       | Some xs0 \<Rightarrow>
           ebind (int_at xs0 2) (\<lambda>s.
           ebind (if s \<ge> 30
                  then ebind (int_at xs0 1) (\<lambda>m. Inr (xs0[1 := str_int (m + 1)]))
                  else Inr xs0) (\<lambda>xs1.
           ebind (int_at xs1 1) (\<lambda>m1.
           ebind (if m1 > 0 then
                    (if m1 > 59
                     then ebind (int_at xs1 0) (\<lambda>h. Inr (xs1[0 := str_int (h + 1), 1 := ''0''], ''''))
                     else ebind (py_index xs1 1) (\<lambda>ms. Inr (xs1, ms @ ''m'')))
                  else Inr (xs1, '''')) (\<lambda>(xs2, time_string).
           ebind (int_at xs2 0) (\<lambda>h2.
             if h2 > 0
             then ebind (py_index xs2 0) (\<lambda>hs. Inr (Some (hs @ ''h'' @ time_string)))
             else Inr (Some time_string)))))))"

section \<open>Regular expressions\<close>

text \<open>
  The importer uses \<open>re.search\<close> with two patterns, \<open>[a-zA-Z0-9]*\-[0-9]+\<close> and
  \<open>ignore\<close>. Both are sequences of single-character sets, each taken once or under a greedy
  \<open>*\<close> or \<open>+\<close>. The matcher below is the backtracking matcher for such sequences: a
  repetition first takes the longest run of characters of its set and gives characters back
  one at a time while the rest of the pattern fails; \<open>re_search\<close> tries the start
  positions from left to right, the end of the text included.
\<close>

datatype quant = Star | Plus | One

type_synonym item = "(char \<Rightarrow> bool) \<times> quant"

fun min_count :: "quant \<Rightarrow> nat" where
  "min_count Star = 0"
| "min_count Plus = 1"
| "min_count One = 1"

fun max_count :: "quant \<Rightarrow> nat \<Rightarrow> nat" where
  "max_count One n = min 1 n"
| "max_count q n = n"

fun try_from :: "(string \<Rightarrow> string option) \<Rightarrow> nat \<Rightarrow> string \<Rightarrow> nat \<Rightarrow> string option" where
  "try_from cont lo s 0 = (if 0 < lo then None else map_option (\<lambda>m. take 0 s @ m) (cont (drop 0 s)))"
| "try_from cont lo s (Suc k) =
     (if Suc k < lo then None
      else (case cont (drop (Suc k) s) of
              Some m \<Rightarrow> Some (take (Suc k) s @ m)
            | None \<Rightarrow> try_from cont lo s k))"

fun match_items :: "item list \<Rightarrow> string \<Rightarrow> string option" where
  "match_items [] s = Some []"
| "match_items ((P, q) # its) s =
     try_from (match_items its) (min_count q) s (max_count q (length (takeWhile P s)))"

fun re_search :: "item list \<Rightarrow> string \<Rightarrow> string option" where
  "re_search its [] = match_items its []"
| "re_search its (c # s) =
     (case match_items its (c # s) of Some m \<Rightarrow> Some m | None \<Rightarrow> re_search its s)"

text \<open>The compiled pattern \<open>(?P<issue_id>[a-zA-Z0-9]*\-[0-9]+)\<close>; its only group is the whole
  match. With \<open>re.IGNORECASE\<close> the sets are the same on code points below 256.\<close>

definition issue_finder :: "item list" where
  "issue_finder = [(is_alnum, Star), (\<lambda>c. c = CHR ''-'', One), (is_digit, Plus)]"

text \<open>A literal pattern under \<open>re.IGNORECASE\<close>.\<close>

definition literal_ignorecase :: "string \<Rightarrow> item list" where
  "literal_ignorecase p = map (\<lambda>x. (\<lambda>c. to_lower c = to_lower x, One)) p"

text \<open>\<open>p in s\<close> on strings: \<open>p\<close> occurs in \<open>s\<close>, letter case respected.\<close>

fun starts_with :: "string \<Rightarrow> string \<Rightarrow> bool" where
  "starts_with [] s = True"
| "starts_with (x # p) [] = False"
| "starts_with (x # p) (c # s) = (x = c \<and> starts_with p s)"

fun contains :: "string \<Rightarrow> string \<Rightarrow> bool" where
  "contains p [] = (p = [])"
| "contains p (c # s) = (starts_with p (c # s) \<or> contains p s)"

subsection \<open>Issue ids and ignored rows of the CSV importer\<close>

definition get_issue_id_from_tags :: "pyval \<Rightarrow> string option res" where
  "get_issue_id_from_tags issue_string =
     (if \<not> truthy issue_string then Inr None
      else (case issue_string of
              PyStr s \<Rightarrow> Inr (re_search issue_finder s)
            | _ \<Rightarrow> Inl TypeError))"

definition is_ignored :: "variant \<Rightarrow> rowdata \<Rightarrow> bool res" where
  "is_ignored v d = (case get_tags v d of
       PyStr s \<Rightarrow> Inr (re_search (literal_ignorecase ''ignore'') s \<noteq> None)
     | _ \<Rightarrow> Inl TypeError)"

section \<open>Rows of the API importer\<close>

text \<open>The class \<open>TogglAPIRow\<close> of the module \<open>row\<close>; \<open>data.get(k)\<close> is \<open>get_field\<close>.\<close>

definition api_is_ignored :: "rowdata \<Rightarrow> bool res" where
  "api_is_ignored d = (case get_field d ''tags'' of
       PyStr s \<Rightarrow> Inr (contains ''ignore'' s)
     | PyList xs \<Rightarrow> Inr (PyStr ''ignore'' \<in> set xs)
     | _ \<Rightarrow> Inl TypeError)"



section \<open>Specification predicates\<close>




text \<open>Leading zeros of a decimal component, used to state properties for every digit string.\<close>

definition zeros :: "nat \<Rightarrow> string" where
  "zeros k = replicate k CHR ''0''"



text \<open>The project part of an issue id, as both \<open>get_project_id_from_tags\<close> and
  \<open>get_project_id\<close> of the CSV importer compute it: \<open>issue_id.split('-')[0]\<close> when the
  issue id is truthy, None otherwise.\<close>

definition project_part :: "string option \<Rightarrow> string option res" where
  "project_part issue_id = (case issue_id of
       None \<Rightarrow> Inr None
     | Some m \<Rightarrow> if m = [] then Inr None
                 else ebind (py_index (split_on CHR ''-'' m) 0) (\<lambda>x. Inr (Some x)))"

text \<open>A text contains "ignore" in some letter case.\<close>

definition mentions_ignore :: "string \<Rightarrow> bool" where
  "mentions_ignore s = (\<exists>pre m post. s = pre @ m @ post \<and> map to_lower m = ''ignore'')"

section \<open>Dates\<close>

text \<open>
  \<open>datetime.strptime\<close> compiles the format into a regular expression, one group of
  alternatives per directive, tried in the order written, with backtracking; white space in
  the format stands for \<open>\s+\<close>. The text must be consumed entirely, and the fields must
  form a valid \<open>datetime\<close>; otherwise ValueError. Only the directives of the importer's
  three formats are modelled. The formats have no fraction of a second, so all arithmetic on
  the results is on whole seconds, where Python's floats are exact.
\<close>

record datetime =
  year :: nat
  month :: nat
  day :: nat
  hour :: nat
  minute :: nat
  second :: nat

datatype directive = Dir_d | Dir_m | Dir_Y | Dir_H | Dir_M | Dir_S | Spaces | Lit char

definition any_digit :: "char \<Rightarrow> bool" where
  "any_digit c = is_digit c"

definition in_range :: "char \<Rightarrow> char \<Rightarrow> char \<Rightarrow> bool" where
  "in_range lo hi c = ((of_char lo :: nat) \<le> of_char c \<and> (of_char c :: nat) \<le> of_char hi)"

text \<open>The alternatives of each directive, as \<open>_strptime.TimeRE\<close> lists them; an alternative
  is a sequence of character sets.\<close>

fun alternatives :: "directive \<Rightarrow> (char \<Rightarrow> bool) list list" where
  "alternatives Dir_d =
     [[(\<lambda>c. c = CHR ''3''), in_range CHR ''0'' CHR ''1''],
      [in_range CHR ''1'' CHR ''2'', any_digit],
      [(\<lambda>c. c = CHR ''0''), in_range CHR ''1'' CHR ''9''],
      [in_range CHR ''1'' CHR ''9''],
      [(\<lambda>c. c = CHR '' ''), in_range CHR ''1'' CHR ''9'']]"
| "alternatives Dir_m =
     [[(\<lambda>c. c = CHR ''1''), in_range CHR ''0'' CHR ''2''],
      [(\<lambda>c. c = CHR ''0''), in_range CHR ''1'' CHR ''9''],
      [in_range CHR ''1'' CHR ''9'']]"
| "alternatives Dir_Y = [[any_digit, any_digit, any_digit, any_digit]]"
| "alternatives Dir_H =
     [[(\<lambda>c. c = CHR ''2''), in_range CHR ''0'' CHR ''3''],
      [in_range CHR ''0'' CHR ''1'', any_digit],
      [any_digit]]"
| "alternatives Dir_M =
     [[in_range CHR ''0'' CHR ''5'', any_digit],
      [any_digit]]"
| "alternatives Dir_S =
     [[(\<lambda>c. c = CHR ''6''), in_range CHR ''0'' CHR ''1''],
      [in_range CHR ''0'' CHR ''5'', any_digit],
      [any_digit]]"
| "alternatives (Lit x) = [[(\<lambda>c. c = x)]]"
| "alternatives Spaces = []"

fun matches_sets :: "(char \<Rightarrow> bool) list \<Rightarrow> string \<Rightarrow> bool" where
  "matches_sets [] s = True"
| "matches_sets (P # ps) [] = False"
| "matches_sets (P # ps) (c # s) = (P c \<and> matches_sets ps s)"

text \<open>The first success among the candidate lengths \<open>ks\<close> of one group, in order. The result
  is the texts matched by the groups and the unconverted rest: the expression is not
  anchored at the end of the text.\<close>

type_synonym fields = "(directive \<times> string) list"

fun first_success :: "(string \<Rightarrow> (fields \<times> string) option) \<Rightarrow> directive \<Rightarrow> string
    \<Rightarrow> nat list \<Rightarrow> (fields \<times> string) option" where
  "first_success cont dir s [] = None"
| "first_success cont dir s (k # ks) =
     (case cont (drop k s) of
        Some (fs, rest) \<Rightarrow> Some ((dir, take k s) # fs, rest)
      | None \<Rightarrow> first_success cont dir s ks)"

fun match_format :: "directive list \<Rightarrow> string \<Rightarrow> (fields \<times> string) option" where
  "match_format [] s = Some ([], s)"
| "match_format (dir # ds) s =
     first_success (match_format ds) dir s
       (if dir = Spaces
        then rev [1 ..< Suc (length (takeWhile is_space s))]
        else map length (filter (\<lambda>alt. matches_sets alt s) (alternatives dir)))"

text \<open>The value of a directive's group, or the default \<open>strptime\<close> uses without it.\<close>

definition field_value :: "fields \<Rightarrow> directive \<Rightarrow> int \<Rightarrow> int res" where
  "field_value fs dir dflt = (case map_of fs dir of None \<Rightarrow> Inr dflt | Some t \<Rightarrow> py_int t)"

definition is_leap :: "nat \<Rightarrow> bool" where
  "is_leap y = (y mod 4 = 0 \<and> (y mod 100 \<noteq> 0 \<or> y mod 400 = 0))"

definition days_in_month :: "nat \<Rightarrow> nat \<Rightarrow> nat" where
  "days_in_month y m =
     (if m = 2 then (if is_leap y then 29 else 28)
      else if m = 4 \<or> m = 6 \<or> m = 9 \<or> m = 11 then 30 else 31)"

text \<open>The constructor \<open>datetime(year, month, day, hour, minute, second)\<close> and its range checks.\<close>

definition make_datetime :: "int \<Rightarrow> int \<Rightarrow> int \<Rightarrow> int \<Rightarrow> int \<Rightarrow> int \<Rightarrow> datetime res" where
  "make_datetime y mo d h mi s =
     (if 1 \<le> y \<and> y \<le> 9999 \<and> 1 \<le> mo \<and> mo \<le> 12
         \<and> 1 \<le> d \<and> d \<le> int (days_in_month (nat y) (nat mo))
         \<and> 0 \<le> h \<and> h \<le> 23 \<and> 0 \<le> mi \<and> mi \<le> 59 \<and> 0 \<le> s \<and> s \<le> 59
      then Inr \<lparr>year = nat y, month = nat mo, day = nat d,
                hour = nat h, minute = nat mi, second = nat s\<rparr>
      else Inl ValueError)"

definition strptime :: "string \<Rightarrow> directive list \<Rightarrow> datetime res" where
  "strptime date_string fmt =
     (case match_format fmt date_string of
        None \<Rightarrow> Inl ValueError
      | Some (fs, rest) \<Rightarrow>
          if rest \<noteq> [] then Inl ValueError
          else
            ebind (field_value fs Dir_Y 1900) (\<lambda>y.
            ebind (field_value fs Dir_m 1) (\<lambda>mo.
            ebind (field_value fs Dir_d 1) (\<lambda>d.
            ebind (field_value fs Dir_H 0) (\<lambda>h.
            ebind (field_value fs Dir_M 0) (\<lambda>mi.
            ebind (field_value fs Dir_S 0) (\<lambda>s.
              make_datetime y mo d h mi s)))))))"

text \<open>The proleptic Gregorian ordinal of a date, day 1 being 1 January of year 1, and the
  whole seconds of \<open>dt - datetime.utcfromtimestamp(0)\<close>.\<close>

definition days_before_year :: "nat \<Rightarrow> int" where
  "days_before_year y = (let p = int y - 1 in p * 365 + p div 4 - p div 100 + p div 400)"

definition days_before_month :: "nat \<Rightarrow> nat \<Rightarrow> int" where
  "days_before_month y m = int (sum_list (map (days_in_month y) [1 ..< m]))"

definition toordinal :: "datetime \<Rightarrow> int" where
  "toordinal dt = days_before_year (year dt) + days_before_month (year dt) (month dt) + int (day dt)"

definition epoch_datetime :: datetime where
  "epoch_datetime = \<lparr>year = 1970, month = 1, day = 1, hour = 0, minute = 0, second = 0\<rparr>"

definition seconds_since_epoch :: "datetime \<Rightarrow> int" where
  "seconds_since_epoch dt =
     (toordinal dt - toordinal epoch_datetime) * 86400
       + int (hour dt) * 3600 + int (minute dt) * 60 + int (second dt)"

text \<open>The three formats: \<open>%d/%m/%Y %H:%M:%S\<close> of \<open>Row\<close> and \<open>ManicTimeRow\<close>,
  \<open>%Y-%m-%d %H:%M:%S\<close> of \<open>TogglRow\<close>, \<open>%Y-%m-%dT%H:%M:%S\<close> of \<open>TogglAPIRow\<close>.\<close>

definition time_part :: "directive list" where
  "time_part = [Dir_H, Lit CHR '':'', Dir_M, Lit CHR '':'', Dir_S]"

fun datetime_format :: "variant \<Rightarrow> directive list" where
  "datetime_format TogglRow =
     [Dir_Y, Lit CHR ''-'', Dir_m, Lit CHR ''-'', Dir_d, Spaces] @ time_part"
| "datetime_format v =
     [Dir_d, Lit CHR ''/'', Dir_m, Lit CHR ''/'', Dir_Y, Spaces] @ time_part"

definition api_datetime_format :: "directive list" where
  "api_datetime_format =
     [Dir_Y, Lit CHR ''-'', Dir_m, Lit CHR ''-'', Dir_d, Lit CHR ''T''] @ time_part"

subsection \<open>Dates of the CSV importer\<close>

definition get_date_object :: "variant \<Rightarrow> rowdata \<Rightarrow> datetime option res" where
  "get_date_object v d =
     ebind (get_start v d) (\<lambda>date_string.
       if truthy date_string then
         (case date_string of
            PyStr s \<Rightarrow> ebind (strptime s (datetime_format v)) (\<lambda>dt. Inr (Some dt))
          | _ \<Rightarrow> Inl TypeError)
       else Inr None)"

text \<open>A \<open>datetime\<close> is always truthy, so \<open>if dt:\<close> only tests for None.\<close>

definition get_date_as_unix_time :: "variant \<Rightarrow> rowdata \<Rightarrow> int option res" where
  "get_date_as_unix_time v d =
     ebind (get_date_object v d) (\<lambda>dt.
       case dt of
         Some t \<Rightarrow> Inr (Some (seconds_since_epoch t))
       | None \<Rightarrow> Inr None)"

text \<open>\<open>if epoch:\<close> is false for None and for 0.\<close>

definition get_date_as_unix_time_milliseconds :: "variant \<Rightarrow> rowdata \<Rightarrow> int option res" where
  "get_date_as_unix_time_milliseconds v d =
     ebind (get_date_as_unix_time v d) (\<lambda>epoch.
       case epoch of
         Some e \<Rightarrow> if e \<noteq> 0 then Inr (Some (e * 1000)) else Inr None
       | None \<Rightarrow> Inr None)"

section \<open>Work items\<close>

text \<open>A \<open>youtrack.WorkItem\<close> with the three attributes the importer sets and reads.\<close>

record work_item =
  description :: pyval
  date :: pyval
  duration :: pyval

definition opt_int :: "int option \<Rightarrow> pyval" where
  "opt_int x = (case x of None \<Rightarrow> PyNone | Some i \<Rightarrow> PyInt i)"

definition create_timeslip :: "variant \<Rightarrow> rowdata \<Rightarrow> work_item res" where
  "create_timeslip v d =
     ebind (get_date_as_unix_time_milliseconds v d) (\<lambda>ms.
     ebind (get_duration_as_minutes v d) (\<lambda>mins.
       Inr \<lparr>description = get_description v d, date = opt_int ms, duration = opt_int mins\<rparr>))"
subsection \<open>Work items of the API importer\<close>

text \<open>
  \<open>round(x)\<close> on the quotient of two integers, halves going to the even neighbour. The
  source divides in floating point, by 1000 and then by 60; the model divides exactly, which
  gives the same integer for every duration below \<open>2^52\<close> milliseconds.
\<close>

definition round_div :: "int \<Rightarrow> int \<Rightarrow> int" where
  "round_div a b = (let q = a div b; r = a mod b in
     if 2 * r < b then q else if 2 * r > b then q + 1 else if even q then q else q + 1)"

definition api_duration :: "rowdata \<Rightarrow> int res" where
  "api_duration d = (case get_field d ''dur'' of
       PyInt i \<Rightarrow> Inr (round_div i 60000)
     | PyBool b \<Rightarrow> Inr (round_div (if b then 1 else 0) 60000)
     | _ \<Rightarrow> Inl TypeError)"

definition start_datetime :: "rowdata \<Rightarrow> datetime res" where
  "start_datetime d = (case get_field d ''start'' of
       PyStr s \<Rightarrow> ebind (py_index (split_on CHR ''+'' s) 0) (\<lambda>start.
                   strptime start api_datetime_format)
     | _ \<Rightarrow> Inl AttributeError)"

text \<open>\<open>timestamp()\<close> of a naive \<open>datetime\<close> reads it as local time; \<open>utcoffset\<close> is the
  offset of the host's time zone at that local time, in seconds.\<close>

definition api_date :: "(datetime \<Rightarrow> int) \<Rightarrow> rowdata \<Rightarrow> int res" where
  "api_date utcoffset d =
     ebind (start_datetime d) (\<lambda>dt. Inr ((seconds_since_epoch dt - utcoffset dt) * 1000))"

definition work_item :: "(datetime \<Rightarrow> int) \<Rightarrow> rowdata \<Rightarrow> work_item res" where
  "work_item utcoffset d =
     ebind (api_duration d) (\<lambda>dur.
     ebind (api_date utcoffset d) (\<lambda>dt.
       Inr \<lparr>description = get_field d ''description'',
            date = PyStr (str_int dt), duration = PyStr (str_int dur)\<rparr>))"

section \<open>The tracker and the state of a row\<close>

text \<open>
  The tracker is outside the importer. Its answers are parameters of the model and may
  depend on all the calls made so far; every call is appended to a log. \<open>get_issue\<close>
  answers \<open>Some\<close> issue object, \<open>None\<close> for any falsy result, or raises.
\<close>

datatype issue = Issue (issue_id: string)

datatype project = Project (project_id: string)

datatype call =
    GetIssue string
  | GetProject "string option"
  | GetWorkItems "string option"
  | CreateWorkItem string work_item

record connection =
  get_issue :: "call list \<Rightarrow> string \<Rightarrow> issue option res"
  getProject :: "call list \<Rightarrow> string option \<Rightarrow> project option res"
  getWorkItems :: "call list \<Rightarrow> string option \<Rightarrow> work_item list res"
  createWorkItem :: "call list \<Rightarrow> string \<Rightarrow> work_item \<Rightarrow> pyval res"

text \<open>The attributes \<open>_issue\<close> and \<open>_project\<close> hold None, False or an object.\<close>

datatype 'a lookup = NotLookedUp | NotFound | Found 'a

record row =
  kind :: variant
  data :: rowdata
  cached_issue :: "issue lookup"
  cached_project :: "project lookup"

definition new_row :: "variant \<Rightarrow> rowdata \<Rightarrow> row" where
  "new_row v d = \<lparr>kind = v, data = d, cached_issue = NotLookedUp, cached_project = NotLookedUp\<rparr>"

type_synonym state = "row \<times> call list"

type_synonym 'a act = "state \<Rightarrow> 'a res \<times> state"

definition areturn :: "'a \<Rightarrow> 'a act" where
  "areturn x = (\<lambda>s. (Inr x, s))"

definition alift :: "'a res \<Rightarrow> 'a act" where
  "alift r = (\<lambda>s. (r, s))"

definition abind :: "'a act \<Rightarrow> ('a \<Rightarrow> 'b act) \<Rightarrow> 'b act" where
  "abind m f = (\<lambda>s. case m s of (Inl e, s') \<Rightarrow> (Inl e, s') | (Inr x, s') \<Rightarrow> f x s')"

text \<open>\<open>str(x)\<close> for a string or None.\<close>

definition str_opt :: "string option \<Rightarrow> string" where
  "str_opt x = (case x of None \<Rightarrow> ''None'' | Some s \<Rightarrow> s)"

definition text_issue_id :: "row \<Rightarrow> string option res" where
  "text_issue_id r = ebind (get_issue_string (kind r) (data r)) get_issue_id_from_tags"

text \<open>The property \<open>issue\<close>: anything but a cached issue object is looked up; only
  \<open>YouTrackException\<close> is caught.\<close>

definition issue :: "connection \<Rightarrow> issue lookup act" where
  "issue conn = (\<lambda>(r, log).
     case cached_issue r of
       Found i \<Rightarrow> (Inr (Found i), (r, log))
     | _ \<Rightarrow>
        (case text_issue_id r of
           Inl e \<Rightarrow> (Inl e, (r, log))
         | Inr tid \<Rightarrow>
            (let log' = log @ [GetIssue (str_opt tid)] in
             case get_issue conn log (str_opt tid) of
               Inr (Some i) \<Rightarrow> (Inr (Found i), (r\<lparr>cached_issue := Found i\<rparr>, log'))
             | Inr None \<Rightarrow> (Inr NotFound, (r\<lparr>cached_issue := NotFound\<rparr>, log'))
             | Inl e \<Rightarrow>
                 if e = YouTrackException
                 then (Inr NotFound, (r\<lparr>cached_issue := NotFound\<rparr>, log'))
                 else (Inl e, (r, log')))))"

definition issue_exists :: "connection \<Rightarrow> bool act" where
  "issue_exists conn = abind (issue conn) (\<lambda>i.
     areturn (case i of Found x \<Rightarrow> True | _ \<Rightarrow> False))"

text \<open>\<open>get_issue_id\<close> reads the property once for the test and once more for the id.\<close>

definition get_issue_id :: "connection \<Rightarrow> string option act" where
  "get_issue_id conn = abind (issue conn) (\<lambda>i.
     case i of
       Found x \<Rightarrow> abind (issue conn) (\<lambda>j.
         case j of Found y \<Rightarrow> areturn (Some (issue_id y)) | _ \<Rightarrow> alift (Inl AttributeError))
     | _ \<Rightarrow> (\<lambda>(r, log). (text_issue_id r, (r, log))))"

definition get_project_id_from_tags :: "connection \<Rightarrow> string option act" where
  "get_project_id_from_tags conn = abind (get_issue_id conn) (\<lambda>i. alift (project_part i))"

text \<open>The property \<open>project\<close>; nothing is caught here.\<close>

definition project :: "connection \<Rightarrow> project lookup act" where
  "project conn = (\<lambda>(r, log).
     case cached_project r of
       Found p \<Rightarrow> (Inr (Found p), (r, log))
     | _ \<Rightarrow>
        abind (get_project_id_from_tags conn) (\<lambda>pid (r1, log1).
          let log' = log1 @ [GetProject pid] in
          case getProject conn log1 pid of
            Inr (Some p) \<Rightarrow> (Inr (Found p), (r1\<lparr>cached_project := Found p\<rparr>, log'))
          | Inr None \<Rightarrow> (Inr NotFound, (r1\<lparr>cached_project := NotFound\<rparr>, log'))
          | Inl e \<Rightarrow> (Inl e, (r1, log'))) (r, log))"

definition project_exists :: "connection \<Rightarrow> bool act" where
  "project_exists conn = abind (project conn) (\<lambda>p.
     areturn (case p of Found x \<Rightarrow> True | _ \<Rightarrow> False))"

subsection \<open>Duplicate detection and saving\<close>

definition get_timeslips :: "connection \<Rightarrow> work_item list act" where
  "get_timeslips conn = abind (get_issue_id conn) (\<lambda>iid (r, log).
     (getWorkItems conn log iid, (r, log @ [GetWorkItems iid])))"

text \<open>\<open>str(x)\<close> for an integer or None, and \<open>==\<close> between values.\<close>

definition str_opt_int :: "int option \<Rightarrow> string" where
  "str_opt_int x = (case x of None \<Rightarrow> ''None'' | Some i \<Rightarrow> str_int i)"

fun py_eq :: "pyval \<Rightarrow> pyval \<Rightarrow> bool" where
  "py_eq (PyBool a) (PyInt b) = ((if a then 1 else 0) = b)"
| "py_eq (PyInt a) (PyBool b) = (a = (if b then 1 else 0))"
| "py_eq (PyList xs) (PyList ys) = list_all2 py_eq xs ys"
| "py_eq a b = (a = b)"

fun timeslip_matches :: "variant \<Rightarrow> rowdata \<Rightarrow> work_item list \<Rightarrow> bool res" where
  "timeslip_matches v d [] = Inr False"
| "timeslip_matches v d (timeslip # rest) =
     ebind (get_duration_as_minutes v d) (\<lambda>mins.
       if py_eq (duration timeslip) (PyStr (str_opt_int mins)) then
         ebind (get_date_as_unix_time_milliseconds v d) (\<lambda>ms.
           if py_eq (date timeslip) (PyStr (str_opt_int ms)) then
             (if py_eq (description timeslip) (get_description v d) then Inr True
              else timeslip_matches v d rest)
           else timeslip_matches v d rest)
       else timeslip_matches v d rest)"

definition timeslip_exists :: "connection \<Rightarrow> bool act" where
  "timeslip_exists conn = abind (get_timeslips conn) (\<lambda>timeslips (r, log).
     (timeslip_matches (kind r) (data r) timeslips, (r, log)))"

definition truthy_id :: "string option \<Rightarrow> bool" where
  "truthy_id x = (case x of None \<Rightarrow> False | Some s \<Rightarrow> s \<noteq> [])"

definition save :: "connection \<Rightarrow> pyval act" where
  "save conn = (\<lambda>(r, log).
     case create_timeslip (kind r) (data r) of
       Inl e \<Rightarrow> (Inl e, (r, log))
     | Inr timeslip \<Rightarrow>
         abind (get_issue_id conn) (\<lambda>iid (r1, log1).
           case iid of
             Some i \<Rightarrow>
               if i \<noteq> []
               then (createWorkItem conn log1 i timeslip, (r1, log1 @ [CreateWorkItem i timeslip]))
               else (Inr (PyBool False), (r1, log1))
           | None \<Rightarrow> (Inr (PyBool False), (r1, log1))) (r, log))"

text \<open>The text shown to the user for a row. \<open>strftime\<close> stands for the locale's rendering of
  \<open>%a, %d %b\<close>; joining fails unless all three parts are strings.\<close>

definition timeslip_string :: "(datetime \<Rightarrow> string) \<Rightarrow> variant \<Rightarrow> rowdata \<Rightarrow> string res" where
  "timeslip_string strftime v d =
     ebind (get_date_object v d) (\<lambda>dt.
     ebind (get_duration_as_string v d) (\<lambda>ds.
       case (dt, ds, get_description v d) of
         (Some t, Some s, PyStr n) \<Rightarrow> Inr (strftime t @ '' / '' @ s @ '' / '' @ n)
       | _ \<Rightarrow> Inl TypeError))"

section \<open>The driver\<close>

text \<open>
  The main loop reads the user's answers from standard input, here a list, \<open>input()\<close>
  raising EOFError when it is exhausted. Printing is not modelled. Each record of the file
  becomes a fresh \<open>ManicTimeRow\<close>.
\<close>

datatype outcome = Ignored | Duplicate | Uploaded

text \<open>The two tests of the loop: \<open>not id or (id and not exists)\<close> before the first
  question, \<open>id or (id and not exists)\<close> after each answer.\<close>

definition id_and_not_exists :: "connection \<Rightarrow> bool act" where
  "id_and_not_exists conn = abind (get_issue_id conn) (\<lambda>b.
     if truthy_id b then abind (issue_exists conn) (\<lambda>c. areturn (\<not> c)) else areturn False)"

definition needs_question :: "connection \<Rightarrow> bool act" where
  "needs_question conn = abind (get_issue_id conn) (\<lambda>a.
     if \<not> truthy_id a then areturn True else id_and_not_exists conn)"

definition answer_accepted :: "connection \<Rightarrow> bool act" where
  "answer_accepted conn = abind (get_issue_id conn) (\<lambda>a.
     if truthy_id a then areturn True else id_and_not_exists conn)"

fun ask_loop :: "connection \<Rightarrow> string \<Rightarrow> string list \<Rightarrow> state
    \<Rightarrow> (bool \<times> string list) res \<times> state" where
  "ask_loop conn response inputs st =
     (if response = [] then (Inr (True, inputs), st)
      else (case answer_accepted conn st of
              (Inl e, st') \<Rightarrow> (Inl e, st')
            | (Inr True, st') \<Rightarrow> (Inr (False, inputs), st')
            | (Inr False, st') \<Rightarrow>
                (case inputs of
                   [] \<Rightarrow> (Inl EOFError, st')
                 | r # rs \<Rightarrow> ask_loop conn r rs st')))"

text \<open>Whether a row that is not ignored by its tags ends up ignored, with the answers left.\<close>

definition resolve :: "connection \<Rightarrow> (datetime \<Rightarrow> string) \<Rightarrow> string list \<Rightarrow> state
    \<Rightarrow> (bool \<times> string list) res \<times> state" where
  "resolve conn strftime inputs st =
     (case needs_question conn st of
        (Inl e, st') \<Rightarrow> (Inl e, st')
      | (Inr False, st') \<Rightarrow> (Inr (False, inputs), st')
      | (Inr True, (r, log)) \<Rightarrow>
          (case inputs of
             [] \<Rightarrow> (Inl EOFError, (r, log))
           | response # rest \<Rightarrow>
               if strip response = ''n'' then (Inr (True, rest), (r, log))
               else (case timeslip_string strftime (kind r) (data r) of
                       Inl e \<Rightarrow> (Inl e, (r, log))
                     | Inr txt \<Rightarrow>
                         (case rest of
                            [] \<Rightarrow> (Inl EOFError, (r, log))
                          | response2 # rest2 \<Rightarrow> ask_loop conn response2 rest2 (r, log)))))"

text \<open>What happens to a row that is not ignored: upload unless it is a duplicate.\<close>

definition upload :: "connection \<Rightarrow> (datetime \<Rightarrow> string) \<Rightarrow> outcome act" where
  "upload conn strftime =
     abind (timeslip_exists conn) (\<lambda>ex.
       if \<not> ex then abind (save conn) (\<lambda>x. areturn Uploaded)
       else abind (get_issue_id conn) (\<lambda>iid (r, log).
              case iid of
                None \<Rightarrow> (Inl TypeError, (r, log))
              | Some i \<Rightarrow>
                  (ebind (timeslip_string strftime (kind r) (data r)) (\<lambda>txt. Inr Duplicate),
                   (r, log))))"

definition process_row :: "connection \<Rightarrow> (datetime \<Rightarrow> string) \<Rightarrow> rowdata \<Rightarrow> string list
    \<Rightarrow> call list \<Rightarrow> (outcome \<times> string list) res \<times> call list" where
  "process_row conn strftime d inputs log =
     (case get_tags ManicTimeRow d of
        PyStr tags \<Rightarrow>
          if re_search (literal_ignorecase ''ignore'') tags \<noteq> None
          then (Inr (Ignored, inputs), log)
          else (case resolve conn strftime inputs (new_row ManicTimeRow d, log) of
                  (Inl e, (r, log')) \<Rightarrow> (Inl e, log')
                | (Inr (True, rest), (r, log')) \<Rightarrow> (Inr (Ignored, rest), log')
                | (Inr (False, rest), st') \<Rightarrow>
                    (case upload conn strftime st' of
                       (Inl e, (r, log')) \<Rightarrow> (Inl e, log')
                     | (Inr out, (r, log')) \<Rightarrow> (Inr (out, rest), log')))
      | _ \<Rightarrow> (Inl TypeError, log))"

text \<open>The loop over the records, with the counters \<open>count\<close> and \<open>total\<close> (here \<open>total_rows\<close>); an exception
  ends the run.\<close>

fun run_rows :: "connection \<Rightarrow> (datetime \<Rightarrow> string) \<Rightarrow> rowdata list \<Rightarrow> string list
    \<Rightarrow> call list \<Rightarrow> nat \<Rightarrow> nat \<Rightarrow> (nat \<times> nat) res \<times> call list" where
  "run_rows conn strftime [] inputs log count total_rows = (Inr (count, total_rows), log)"
| "run_rows conn strftime (d # rows) inputs log count total_rows =
     (case process_row conn strftime d inputs log of
        (Inl e, log') \<Rightarrow> (Inl e, log')
      | (Inr (out, rest), log') \<Rightarrow>
          run_rows conn strftime rows rest log'
            (if out = Uploaded then count + 1 else count) (total_rows + 1))"

section \<open>Example rows\<close>


definition epoch_row :: rowdata where
  "epoch_row = [''Name'' \<mapsto> PyStr ''ABC-123 meeting'', ''Duration'' \<mapsto> PyStr ''0:30:00'',
     ''Start'' \<mapsto> PyStr ''01/01/1970 00:00:00'', ''Notes'' \<mapsto> PyStr ''sync'']"


section \<open>Caching of lookups\<close>



definition keeps :: "(row \<Rightarrow> bool) \<Rightarrow> (call \<Rightarrow> bool) \<Rightarrow> 'a act \<Rightarrow> bool" where
  "keeps P C m = (\<forall>r log. P r \<longrightarrow>
     (case m (r, log) of (x, (r', log')) \<Rightarrow> P r' \<and> filter C log' = filter C log))"



section \<open>Example trackers\<close>



text \<open>The summary of a run that saw one more record.\<close>

definition one_more_row :: "(nat \<times> nat) res \<times> call list \<Rightarrow> (nat \<times> nat) res \<times> call list" where
  "one_more_row x = (case x of
       (Inr (c, t), log) \<Rightarrow> (Inr (c, t + 1), log)
     | (Inl e, log) \<Rightarrow> (Inl e, log))"

(*DEFS-END*)

section \<open>Properties\<close>

subsection \<open>Decimal strings\<close>

lemma is_digit_digit_char: "d < 10 \<Longrightarrow> is_digit (digit_char d)"
  by (simp add: is_digit_def digit_char_def)

lemma digit_val_digit_char: "d < 10 \<Longrightarrow> digit_val (digit_char d) = d"
  by (simp add: digit_val_def digit_char_def)

lemma str_nat_all_digits: "list_all is_digit (str_nat n)"
proof (induction n rule: str_nat.induct)
  case (1 n)
  show ?case
  proof (cases "n < 10")
    case True
    then show ?thesis by (subst str_nat.simps) (simp add: is_digit_digit_char)
  next
    case False
    then have "list_all is_digit (str_nat (n div 10))" using 1 by simp
    moreover have "is_digit (digit_char (n mod 10))" by (simp add: is_digit_digit_char)
    ultimately show ?thesis using False by (subst str_nat.simps) simp
  qed
qed

lemma str_nat_nonempty: "str_nat n \<noteq> []"
  by (subst str_nat.simps) simp

lemma digit_not_underscore: "is_digit c \<Longrightarrow> c \<noteq> CHR ''_''"
  by (auto simp: is_digit_def)

lemma digit_not_colon: "is_digit c \<Longrightarrow> c \<noteq> CHR '':''"
  by (auto simp: is_digit_def)

lemma digit_not_space: "is_digit c \<Longrightarrow> \<not> is_space c"
  by (auto simp: is_digit_def is_space_def Let_def)

lemma digit_not_sign: "is_digit c \<Longrightarrow> c \<noteq> CHR ''-'' \<and> c \<noteq> CHR ''+''"
  by (auto simp: is_digit_def)

lemma filter_digits: "list_all is_digit r \<Longrightarrow> filter (\<lambda>c. c \<noteq> CHR ''_'') r = r"
  by (induction r) (auto simp: digit_not_underscore)

lemma no_double_underscore_digits: "list_all is_digit r \<Longrightarrow> no_double_underscore r"
  by (induction r rule: no_double_underscore.induct) (auto simp: digit_not_underscore)

lemma list_all_hd_last: "list_all P r \<Longrightarrow> r \<noteq> [] \<Longrightarrow> P (hd r) \<and> P (last r)"
  by (induction r) (auto simp: list_all_iff)

lemma literal_ok_digits: "list_all is_digit r \<Longrightarrow> r \<noteq> [] \<Longrightarrow> literal_ok r"
  unfolding literal_ok_def
  using list_all_hd_last[of is_digit r] no_double_underscore_digits[of r]
  by (auto simp: list_all_iff)

lemma dropWhile_hd_id: "xs \<noteq> [] \<Longrightarrow> \<not> P (hd xs) \<Longrightarrow> dropWhile P xs = xs"
  by (cases xs) auto

lemma strip_id:
  assumes "r \<noteq> []" "\<not> is_space (hd r)" "\<not> is_space (last r)"
  shows "strip r = r"
proof -
  have 1: "dropWhile is_space r = r" using assms by (simp add: dropWhile_hd_id)
  have "rev r \<noteq> []" "\<not> is_space (hd (rev r))" using assms by (simp_all add: hd_rev)
  then have 2: "dropWhile is_space (rev r) = rev r" by (rule dropWhile_hd_id)
  show ?thesis by (simp add: strip_def 1 2)
qed

lemma py_int_digits:
  assumes "list_all is_digit r" "r \<noteq> []"
  shows "py_int r = Inr (int (digits_value r))"
proof -
  have hl: "is_digit (hd r) \<and> is_digit (last r)" using assms by (rule list_all_hd_last)
  then have s: "strip r = r" using assms(2) by (simp add: strip_id digit_not_space)
  obtain c t where r: "r = c # t" using assms(2) by (cases r) auto
  have "is_digit c" using hl r by simp
  then have c: "c \<noteq> CHR ''-''" "c \<noteq> CHR ''+''" using digit_not_sign by auto
  have "py_int r = literal_value r"
    unfolding py_int_def s unfolding r using c by simp
  then show ?thesis using assms by (simp add: literal_value_def literal_ok_digits)
qed

lemma foldl_digits_zeros: "foldl (\<lambda>a c. 10 * a + digit_val c) 0 (replicate k CHR ''0'') = 0"
  by (induction k) (auto simp: digit_val_def)

lemma foldl_digits_str_nat: "foldl (\<lambda>a c. 10 * a + digit_val c) 0 (str_nat n) = n"
proof (induction n rule: str_nat.induct)
  case (1 n)
  show ?case
  proof (cases "n < 10")
    case True
    then show ?thesis by (subst str_nat.simps) (simp add: digit_val_digit_char)
  next
    case False
    then have "foldl (\<lambda>a c. 10 * a + digit_val c) 0 (str_nat (n div 10)) = n div 10"
      using 1 by simp
    then show ?thesis using False
      by (subst str_nat.simps) (simp add: digit_val_digit_char)
  qed
qed

lemma zeros_all_digits: "list_all is_digit (zeros k)"
  by (simp add: zeros_def list_all_iff is_digit_def)

lemma digits_value_padded: "digits_value (zeros k @ str_nat n) = n"
proof -
  have "list_all is_digit (zeros k @ str_nat n)"
    using zeros_all_digits str_nat_all_digits by simp
  then have "digits_value (zeros k @ str_nat n)
      = foldl (\<lambda>a c. 10 * a + digit_val c) 0 (zeros k @ str_nat n)"
    by (simp only: digits_value_def filter_digits)
  then show ?thesis
    by (simp add: zeros_def foldl_digits_zeros foldl_digits_str_nat)
qed

lemma py_int_padded: "py_int (zeros k @ str_nat n) = Inr (int n)"
proof -
  have "list_all is_digit (zeros k @ str_nat n)"
    using zeros_all_digits str_nat_all_digits by simp
  moreover have "zeros k @ str_nat n \<noteq> []" using str_nat_nonempty by simp
  ultimately show ?thesis by (simp add: py_int_digits digits_value_padded)
qed

lemma split_on_no_sep: "c \<notin> set x \<Longrightarrow> split_on c x = [x]"
  by (induction x) auto

lemma split_on_append: "c \<notin> set x \<Longrightarrow> split_on c (x @ c # r) = x # split_on c r"
  by (induction x) auto

lemma padded_no_colon: "CHR '':'' \<notin> set (zeros k @ str_nat n)"
proof -
  have "list_all is_digit (zeros k @ str_nat n)"
    using zeros_all_digits str_nat_all_digits by simp
  then show ?thesis using digit_not_colon by (auto simp: list_all_iff)
qed

lemma split_three:
  assumes "c \<notin> set x" "c \<notin> set y" "c \<notin> set z"
  shows "split_on c (x @ c # y @ c # z) = [x, y, z]"
  by (simp only: split_on_append[OF assms(1)] split_on_append[OF assms(2)] split_on_no_sep[OF assms(3)])

lemma split_hms:
  "split_on CHR '':'' (zeros a @ str_nat h @ CHR '':'' # zeros b @ str_nat m @ CHR '':'' # zeros c @ str_nat s)
   = [zeros a @ str_nat h, zeros b @ str_nat m, zeros c @ str_nat s]"
  using split_three[OF padded_no_colon padded_no_colon padded_no_colon, of a h b m c s]
  by simp

subsection \<open>Durations\<close>

text \<open>
  C2, as amended: for a row whose raw duration field is the string "1:45:10", the computed
  duration in minutes is 105 (1 * 60 + 45, the 10 seconds being below 30 do not round up)
  and the human-readable duration string is "1h45m".
\<close>

theorem duration_1_45_10:
  assumes "get_duration v d = PyStr ''1:45:10''"
  shows "get_duration_as_minutes v d = Inr (Some 105)
       \<and> get_duration_as_string v d = Inr (Some ''1h45m'')"
proof -
  have sp: "get_duration_split v d = Inr (Some [''1'', ''45'', ''10''])"
    by (simp add: get_duration_split_def assms)
  have i: "py_int ''1'' = Inr 1" "py_int ''45'' = Inr 45" "py_int ''10'' = Inr 10"
    by (simp_all add: py_int_def strip_def is_space_def literal_value_def literal_ok_def
        is_digit_def digits_value_def digit_val_def)
  have m: "get_duration_as_minutes v d = Inr (Some 105)"
    by (simp add: get_duration_as_minutes_def sp int_at_def py_index_def i)
  have t: "get_duration_as_string v d = Inr (Some ''1h45m'')"
    by (simp add: get_duration_as_string_def sp int_at_def py_index_def i)
  show ?thesis using m t by simp
qed

theorem duration_1_45_10_witness:
  "get_duration ManicTimeRow [''Duration'' \<mapsto> PyStr ''1:45:10''] = PyStr ''1:45:10''
   \<and> get_duration_as_minutes ManicTimeRow [''Duration'' \<mapsto> PyStr ''1:45:10''] = Inr (Some 105)
   \<and> get_duration_as_string ManicTimeRow [''Duration'' \<mapsto> PyStr ''1:45:10''] = Inr (Some ''1h45m'')"
proof -
  have h: "get_duration ManicTimeRow [''Duration'' \<mapsto> PyStr ''1:45:10''] = PyStr ''1:45:10''"
    by (simp add: get_duration_def get_field_def)
  show ?thesis using h duration_1_45_10 [OF h] by simp
qed

theorem duration_1_45_10_not_106:
  "\<not> (get_duration_as_minutes ManicTimeRow [''Duration'' \<mapsto> PyStr ''1:45:10''] = Inr (Some 106)
      \<and> get_duration_as_string ManicTimeRow [''Duration'' \<mapsto> PyStr ''1:45:10''] = Inr (Some ''1h45m''))"
  by (simp add: get_duration_as_minutes_def get_duration_split_def get_duration_def get_field_def
      int_at_def py_index_def py_int_def strip_def is_space_def literal_value_def literal_ok_def
      is_digit_def digits_value_def digit_val_def)

text \<open>
  C3: for every duration string H:M:S whose three colon-separated components are
  non-negative decimal integers (written with any number of leading zeros), the computed
  duration in minutes is H * 60 + M when S < 30 and H * 60 + M + 1 when S \<ge> 30.
\<close>

theorem minutes_of_hms:
  assumes "get_duration v d = PyStr (zeros a @ str_nat h @ CHR '':'' # zeros b @ str_nat m
             @ CHR '':'' # zeros c @ str_nat s)"
  shows "get_duration_as_minutes v d =
           Inr (Some (if s < 30 then int h * 60 + int m else int h * 60 + int m + 1))"
proof -
  have sp: "get_duration_split v d
      = Inr (Some [zeros a @ str_nat h, zeros b @ str_nat m, zeros c @ str_nat s])"
    unfolding get_duration_split_def assms Let_def
    by (simp add: split_hms str_nat_nonempty)
  show ?thesis
    unfolding get_duration_as_minutes_def sp
    by (simp add: int_at_def py_index_def py_int_padded)
qed

theorem minutes_of_hms_witness:
  "get_duration TogglRow [''Duration'' \<mapsto> PyStr ''02:59:30'']
     = PyStr (zeros 1 @ str_nat 2 @ CHR '':'' # zeros 0 @ str_nat 59 @ CHR '':'' # zeros 0 @ str_nat 30)
   \<and> get_duration_as_minutes TogglRow [''Duration'' \<mapsto> PyStr ''02:59:30''] = Inr (Some 180)"
proof -
  have h: "get_duration TogglRow [''Duration'' \<mapsto> PyStr ''02:59:30'']
     = PyStr (zeros 1 @ str_nat 2 @ CHR '':'' # zeros 0 @ str_nat 59 @ CHR '':'' # zeros 0 @ str_nat 30)"
    by code_simp
  show ?thesis using h minutes_of_hms [OF h] by simp
qed

subsection \<open>The issue-id pattern\<close>



lemma dash_not_digit: "\<not> is_digit CHR ''-''"
  by (simp add: is_digit_def)


lemma match_one:
  "match_items ((P, One) # its) r =
     (case r of [] \<Rightarrow> None
      | c # t \<Rightarrow> if P c then map_option (\<lambda>m. c # m) (match_items its t) else None)"
proof (cases r)
  case Nil
  then show ?thesis by simp
next
  case (Cons c t)
  show ?thesis
  proof (cases "P c")
    case True
    then show ?thesis using Cons by (simp split: option.splits)
  next
    case False
    then show ?thesis using Cons by simp
  qed
qed

























subsection \<open>Ignored rows\<close>

text \<open>
  C4 asks every row variant to ignore a row whose tags contain "ignore" in any letter case.
  The API row tests \<open>"ignore" in tags\<close>, which respects case: tags "IGNORE" or a tag list
  holding "Ignore" are not ignored, while the CSV rows ignore the same text.
\<close>

theorem api_is_ignored_case_sensitive:
  "api_is_ignored [''tags'' \<mapsto> PyStr ''IGNORE''] = Inr False
   \<and> api_is_ignored [''tags'' \<mapsto> PyList [PyStr ''Ignore'']] = Inr False
   \<and> api_is_ignored [''tags'' \<mapsto> PyStr ''ignore''] = Inr True
   \<and> is_ignored ManicTimeRow [''Name'' \<mapsto> PyStr ''IGNORE''] = Inr True
   \<and> is_ignored TogglRow [''Tags'' \<mapsto> PyStr ''IGNORE''] = Inr True"
  by code_simp

text \<open>The CSV rows do what C4 says: \<open>is_ignored\<close> holds exactly of the tag texts that contain
  "ignore" in some letter case.\<close>

lemma match_literal:
  "match_items (literal_ignorecase p) s =
     (if length p \<le> length s \<and> map to_lower (take (length p) s) = map to_lower p
      then Some (take (length p) s) else None)"
proof (induction p arbitrary: s)
  case Nil
  then show ?case by (simp add: literal_ignorecase_def)
next
  case (Cons x p)
  have u: "literal_ignorecase (x # p) = (\<lambda>c. to_lower c = to_lower x, One) # literal_ignorecase p"
    by (simp add: literal_ignorecase_def)
  show ?case
  proof (cases s)
    case Nil
    then show ?thesis by (simp only: u match_one) simp
  next
    case (Cons c t)
    show ?thesis unfolding u match_one Cons using Cons.IH[of t] by auto
  qed
qed

lemma re_search_literal:
  "re_search (literal_ignorecase p) s \<noteq> None
     \<longleftrightarrow> (\<exists>pre m post. s = pre @ m @ post \<and> map to_lower m = map to_lower p)"
proof (induction s)
  case Nil
  then show ?case by (auto simp: match_literal)
next
  case (Cons c s)
  let ?here = "length p \<le> length (c # s) \<and> map to_lower (take (length p) (c # s)) = map to_lower p"
  have step: "re_search (literal_ignorecase p) (c # s) \<noteq> None
      \<longleftrightarrow> ?here \<or> re_search (literal_ignorecase p) s \<noteq> None"
    by (auto simp: match_literal)
  show ?case
  proof
    assume "re_search (literal_ignorecase p) (c # s) \<noteq> None"
    then consider ?here | "re_search (literal_ignorecase p) s \<noteq> None" using step by blast
    then show "\<exists>pre m post. c # s = pre @ m @ post \<and> map to_lower m = map to_lower p"
    proof cases
      case 1
      then have "c # s = [] @ take (length p) (c # s) @ drop (length p) (c # s)
         \<and> map to_lower (take (length p) (c # s)) = map to_lower p" by simp
      then show ?thesis by blast
    next
      case 2
      then obtain pre m post where "s = pre @ m @ post" "map to_lower m = map to_lower p"
        using Cons.IH by blast
      then have "c # s = (c # pre) @ m @ post \<and> map to_lower m = map to_lower p" by simp
      then show ?thesis by blast
    qed
  next
    assume "\<exists>pre m post. c # s = pre @ m @ post \<and> map to_lower m = map to_lower p"
    then obtain pre m post where a: "c # s = pre @ m @ post" "map to_lower m = map to_lower p"
      by blast
    have lm: "length m = length p" using a(2) by (metis length_map)
    show "re_search (literal_ignorecase p) (c # s) \<noteq> None"
    proof (cases pre)
      case Nil
      then have "c # s = m @ post" using a(1) by simp
      then have ?here using a(2) lm by simp
      then show ?thesis using step by blast
    next
      case (Cons c' pre')
      then have "s = pre' @ m @ post" using a(1) by simp
      then have "re_search (literal_ignorecase p) s \<noteq> None" using Cons.IH a(2) by blast
      then show ?thesis using step by blast
    qed
  qed
qed

lemma is_ignored_iff:
  assumes "get_tags v d = PyStr s"
  shows "is_ignored v d = Inr (mentions_ignore s)"
proof -
  have "map to_lower ''ignore'' = ''ignore''" by code_simp
  then show ?thesis
    using re_search_literal[of "''ignore''" s] assms
    by (simp add: is_ignored_def mentions_ignore_def)
qed


subsection \<open>Dates and work items\<close>

text \<open>
  C9: for a row whose start timestamp is exactly the Unix epoch (second 0),
  \<open>get_date_as_unix_time_milliseconds\<close> returns None rather than 0, the zero being treated
  as a missing date, and the work item built for the row has date None.
\<close>

theorem epoch_start_gives_no_date:
  assumes "get_date_object v d = Inr (Some dt)" "seconds_since_epoch dt = 0"
  shows "get_date_as_unix_time v d = Inr (Some 0)
       \<and> get_date_as_unix_time_milliseconds v d = Inr None
       \<and> create_timeslip v d = ebind (get_duration_as_minutes v d) (\<lambda>mins.
            Inr \<lparr>description = get_description v d, date = PyNone, duration = opt_int mins\<rparr>)"
proof -
  have u: "get_date_as_unix_time v d = Inr (Some 0)"
    using assms by (simp add: get_date_as_unix_time_def)
  have m: "get_date_as_unix_time_milliseconds v d = Inr None"
    using u by (simp add: get_date_as_unix_time_milliseconds_def)
  show ?thesis using u m by (simp add: create_timeslip_def opt_int_def)
qed

theorem epoch_start_gives_no_date_witness:
  "get_date_object ManicTimeRow epoch_row = Inr (Some epoch_datetime)
   \<and> seconds_since_epoch epoch_datetime = 0
   \<and> get_date_as_unix_time_milliseconds ManicTimeRow epoch_row = Inr None
   \<and> create_timeslip ManicTimeRow epoch_row
       = Inr \<lparr>description = PyStr ''sync'', date = PyNone, duration = PyInt 30\<rparr>"
proof -
  have a: "get_date_object ManicTimeRow epoch_row = Inr (Some epoch_datetime)" by code_simp
  have b: "seconds_since_epoch epoch_datetime = 0" by code_simp
  have c: "get_duration_as_minutes ManicTimeRow epoch_row = Inr (Some 30)" by code_simp
  have g: "get_field epoch_row ''Notes'' = PyStr ''sync''" by code_simp
  show ?thesis using a b epoch_start_gives_no_date[OF a b] by (simp add: c g opt_int_def)
qed




subsection \<open>Cached lookups\<close>

lemma keeps_areturn: "keeps P C (areturn x)"
  by (simp add: keeps_def areturn_def)


lemma keeps_case:
  assumes "keeps P C m" "P r"
  shows "case m (r, log) of (x, (r', log')) \<Rightarrow> P r' \<and> filter C log' = filter C log"
proof -
  from assms(1) have "\<forall>r log. P r \<longrightarrow>
     (case m (r, log) of (x, (r', log')) \<Rightarrow> P r' \<and> filter C log' = filter C log)"
    unfolding keeps_def .
  then have "\<forall>log. P r \<longrightarrow>
     (case m (r, log) of (x, (r', log')) \<Rightarrow> P r' \<and> filter C log' = filter C log)"
    by (rule spec)
  then have "P r \<longrightarrow>
     (case m (r, log) of (x, (r', log')) \<Rightarrow> P r' \<and> filter C log' = filter C log)"
    by (rule spec)
  then show ?thesis using assms(2) by (rule mp)
qed

lemma keepsD:
  assumes "keeps P C m" "P r" "m (r, log) = (x, (r', log'))"
  shows "P r' \<and> filter C log' = filter C log"
  using keeps_case[OF assms(1,2), of log] by (simp add: assms(3))


lemma keeps_abind:
  assumes "keeps P C m" "\<And>x. keeps P C (f x)"
  shows "keeps P C (abind m f)"
  unfolding keeps_def
proof (intro allI impI)
  fix r log assume p: "P r"
  obtain x s1 where m0: "m (r, log) = (x, s1)" by (cases "m (r, log)") simp
  obtain r1 log1 where s1: "s1 = (r1, log1)" by (cases s1) simp
  have m: "m (r, log) = (x, (r1, log1))" using m0 s1 by simp
  have 1: "P r1 \<and> filter C log1 = filter C log"
    using assms(1) p m by (rule keepsD)
  show "case abind m f (r, log) of (x, (r', log')) \<Rightarrow> P r' \<and> filter C log' = filter C log"
  proof (cases x)
    case (Inl e)
    then show ?thesis using m 1 by (simp add: abind_def)
  next
    case (Inr y)
    obtain z s2 where f0: "f y (r1, log1) = (z, s2)" by (cases "f y (r1, log1)") simp
    obtain r2 log2 where s2: "s2 = (r2, log2)" by (cases s2) simp
    have f: "f y (r1, log1) = (z, (r2, log2))" using f0 s2 by simp
    have p1: "P r1" using 1 by simp
    have "P r2 \<and> filter C log2 = filter C log1"
      using assms(2)[of y] p1 f by (rule keepsD)
    then show ?thesis using m 1 f Inr by (simp add: abind_def)
  qed
qed








lemma keeps_issue_exists:
  assumes "keeps P C (issue conn)"
  shows "keeps P C (issue_exists conn)"
  unfolding issue_exists_def by (intro keeps_abind assms keeps_areturn)














end
